theory Spec2Isabelle
  imports Main "HOL-Library.AList"
begin

section \<open>Cookie sessions, user resolution and route guards\<close>

text \<open>
  A shallow embedding of \<^verbatim>\<open>app/utils/session.server.ts\<close> and
  \<^verbatim>\<open>app/utils/client.server.ts\<close>. The two modules wrap three collaborators that are
  not defined in them: the framework's cookie session storage, the database module
  \<^verbatim>\<open>prisma.server\<close>, and the random identifier generator. Each collaborator is a
  parameter of the embedding; promises that are awaited become sequential steps, a
  rejected promise becomes \<open>Inl\<close> of its error.
\<close>

subsection \<open>Requests, responses and users\<close>

type_synonym error = string

record request =
  cookieHeader :: "string option"  \<comment> \<open>\<^verbatim>\<open>request.headers.get('Cookie')\<close>, \<open>None\<close> for null\<close>
  url :: string

record response =
  status :: nat
  headers :: "(string \<times> string) list"

record user =
  userId :: string
  email :: string
  role :: string

text \<open>
  The three shapes of \<^verbatim>\<open>ResponseInit['headers']\<close> that \<^verbatim>\<open>getHeaders\<close> tells apart:
  a \<^verbatim>\<open>Headers\<close> object, an array of pairs, a plain object.
\<close>

datatype headersInit =
  HeadersObject "(string \<times> string) list"
| HeadersArray "(string \<times> string) list"
| HeadersRecord "(string \<times> string) list"

fun newHeaders :: "headersInit option \<Rightarrow> (string \<times> string) list" where
  "newHeaders None = []"
| "newHeaders (Some (HeadersObject hs)) = hs"
| "newHeaders (Some (HeadersArray hs)) = hs"
| "newHeaders (Some (HeadersRecord hs)) = hs"

definition headersSet :: "string \<Rightarrow> string \<Rightarrow> (string \<times> string) list \<Rightarrow> (string \<times> string) list" where
  "headersSet name v hs = filter (\<lambda>p. fst p \<noteq> name) hs @ [(name, v)]"

definition headersGet :: "(string \<times> string) list \<Rightarrow> string \<Rightarrow> string option" where
  "headersGet hs name = map_of hs name"

definition redirect :: "string \<Rightarrow> headersInit option \<Rightarrow> response" where
  \<comment> \<open>the framework's \<^verbatim>\<open>redirect(url, init)\<close>: status 302 and a \<^verbatim>\<open>Location\<close> header
      set on a copy of the headers of \<^verbatim>\<open>init\<close>\<close>
  "redirect target init =
     \<lparr>status = 302, headers = headersSet ''Location'' target (newHeaders init)\<rparr>"

subsection \<open>The session object and the cookie session storage\<close>

text \<open>
  The data of a session is an insertion-ordered key/value collection. \<^verbatim>\<open>get\<close> reads a
  key (\<open>None\<close> for undefined), \<^verbatim>\<open>set\<close> overwrites in place or appends, \<^verbatim>\<open>unset\<close>
  deletes. The only values this code stores are strings.
\<close>

type_synonym sessionData = "(string \<times> string) list"

definition session_get :: "sessionData \<Rightarrow> string \<Rightarrow> string option" where
  "session_get d k = map_of d k"

definition session_set :: "sessionData \<Rightarrow> string \<Rightarrow> string \<Rightarrow> sessionData" where
  "session_set d k v = AList.update k v d"

definition session_unset :: "sessionData \<Rightarrow> string \<Rightarrow> sessionData" where
  "session_unset d k = AList.delete k d"

text \<open>
  A cookie session storage (\<^verbatim>\<open>createCookieSessionStorage\<close>) is given by its codec:
  \<open>parseCookie\<close> reads the session data out of a \<^verbatim>\<open>Cookie\<close> header (\<open>None\<close> when the
  cookie is missing or its signature is invalid), \<open>serializeCookie\<close> produces the signed
  \<^verbatim>\<open>Set-Cookie\<close> value of session data.
\<close>

record cookieSessionStorage =
  parseCookie :: "string \<Rightarrow> sessionData option"
  serializeCookie :: "sessionData \<Rightarrow> string"

definition storage_getSession :: "cookieSessionStorage \<Rightarrow> string option \<Rightarrow> sessionData" where
  \<comment> \<open>a missing header or an unreadable cookie gives the empty session, never an error\<close>
  "storage_getSession st hdr =
     (case hdr of
        None \<Rightarrow> []
      | Some h \<Rightarrow> (case parseCookie st h of None \<Rightarrow> [] | Some d \<Rightarrow> d))"

definition storage_commitSession :: "cookieSessionStorage \<Rightarrow> sessionData \<Rightarrow> string" where
  "storage_commitSession st d = serializeCookie st d"

subsection \<open>The database module and the world\<close>

text \<open>
  The functions imported from \<^verbatim>\<open>prisma.server\<close>, over a database state \<open>'s\<close>. Each
  takes the state, answers with a value or an error (the rejection), and returns the
  state it leaves behind.
\<close>

record 's prismaServer =
  getUserByEmail :: "string \<Rightarrow> 's \<Rightarrow> (error + user option) \<times> 's"
  getUserFromSessionId :: "string \<Rightarrow> 's \<Rightarrow> (error + user) \<times> 's"
  validateMagicLink :: "string \<Rightarrow> 's \<Rightarrow> (error + string) \<times> 's"
  createSession :: "string \<Rightarrow> 's \<Rightarrow> (error + string) \<times> 's"
    \<comment> \<open>from a user id to the id of the new session record\<close>

datatype storeCall =
  GetUserByEmail string
| GetUserFromSessionId string
| ValidateMagicLink string
| CreateSession string
| SessionDelete string

text \<open>
  The world a request handler runs in: the database, the calls made to the database
  module so far, and what was written with \<^verbatim>\<open>console.error\<close>. \<open>SessionDelete\<close> records
  that \<^verbatim>\<open>prisma.session.delete\<close> was issued; the handler does not await it, so its
  effect on the database is not part of the handler's run.
\<close>

record 's world =
  db :: 's
  calls :: "storeCall list"
  consoleErrors :: "(string \<times> error) list"

definition sessionIdKey :: string where
  "sessionIdKey = ''__session_id__''"

subsection \<open>\<^verbatim>\<open>getSession\<close> and the handle it returns\<close>

text \<open>
  The closures returned by \<^verbatim>\<open>getSession\<close> share the mutable \<^verbatim>\<open>session\<close> and the
  constant \<^verbatim>\<open>initialValue\<close>; the handle is that pair, and each closure a function on it.
\<close>

record sessionHandle =
  session :: sessionData
  initialValue :: string

definition getSession :: "cookieSessionStorage \<Rightarrow> request \<Rightarrow> sessionHandle" where
  "getSession st req =
     (let s = storage_getSession st (cookieHeader req)
      in \<lparr>session = s, initialValue = storage_commitSession st s\<rparr>)"

definition getSessionId :: "sessionHandle \<Rightarrow> string option" where
  "getSessionId h = session_get (session h) sessionIdKey"

definition unsetSessionId :: "sessionHandle \<Rightarrow> sessionHandle" where
  "unsetSessionId h = h\<lparr>session := session_unset (session h) sessionIdKey\<rparr>"

definition commit :: "cookieSessionStorage \<Rightarrow> sessionHandle \<Rightarrow> string option" where
  "commit st h =
     (let currentValue = storage_commitSession st (session h)
      in if currentValue = initialValue h then None else Some currentValue)"

definition handle_getUser ::
  "'s prismaServer \<Rightarrow> sessionHandle \<Rightarrow> 's world \<Rightarrow> user option \<times> sessionHandle \<times> 's world" where
  \<comment> \<open>\<^verbatim>\<open>!token\<close> holds for undefined and for the empty string\<close>
  "handle_getUser env h w =
     (case getSessionId h of
        None \<Rightarrow> (None, h, w)
      | Some token \<Rightarrow>
          if token = [] then (None, h, w)
          else (case getUserFromSessionId env token (db w) of
                  (Inr u, d) \<Rightarrow>
                    (Some u, h, w\<lparr>db := d, calls := calls w @ [GetUserFromSessionId token]\<rparr>)
                | (Inl e, d) \<Rightarrow>
                    (None, unsetSessionId h,
                     w\<lparr>db := d, calls := calls w @ [GetUserFromSessionId token],
                       consoleErrors := consoleErrors w @
                         [(''Failure getting user from session ID:'', e)]\<rparr>)))"

definition singIn ::
  "'s prismaServer \<Rightarrow> string \<Rightarrow> sessionHandle \<Rightarrow> 's world \<Rightarrow>
     (error + unit) \<times> sessionHandle \<times> 's world" where
  \<comment> \<open>the argument is \<^verbatim>\<open>user.id\<close>; a rejected \<^verbatim>\<open>createSession\<close> leaves the session as it was\<close>
  "singIn env uid h w =
     (case createSession env uid (db w) of
        (Inl e, d) \<Rightarrow> (Inl e, h, w\<lparr>db := d, calls := calls w @ [CreateSession uid]\<rparr>)
      | (Inr sid, d) \<Rightarrow>
          (Inr (), h\<lparr>session := session_set (session h) sessionIdKey sid\<rparr>,
           w\<lparr>db := d, calls := calls w @ [CreateSession uid]\<rparr>))"

definition signOut :: "sessionHandle \<Rightarrow> 's world \<Rightarrow> sessionHandle \<times> 's world" where
  "signOut h w =
     (case getSessionId h of
        None \<Rightarrow> (h, w)
      | Some sessionId \<Rightarrow>
          if sessionId = [] then (h, w)
          else (unsetSessionId h, w\<lparr>calls := calls w @ [SessionDelete sessionId]\<rparr>))"

definition getHeaders ::
  "cookieSessionStorage \<Rightarrow> sessionHandle \<Rightarrow> headersInit option \<Rightarrow> headersInit" where
  \<comment> \<open>the default argument is a new, empty \<^verbatim>\<open>Headers\<close>; \<^verbatim>\<open>!value\<close> holds for null and
      for the empty string\<close>
  "getHeaders st h arg =
     (let hdrs = (case arg of None \<Rightarrow> HeadersObject [] | Some x \<Rightarrow> x)
      in case commit st h of
           None \<Rightarrow> hdrs
         | Some v \<Rightarrow>
             if v = [] then hdrs
             else (case hdrs of
                     HeadersObject hs \<Rightarrow> HeadersObject (hs @ [(''Set-Cookie'', v)])
                   | HeadersArray hs \<Rightarrow> HeadersArray (hs @ [(''Set-Cookie'', v)])
                   | HeadersRecord hs \<Rightarrow> HeadersRecord (AList.update ''Set-Cookie'' v hs)))"

subsection \<open>Module-level functions\<close>

definition getUser_run ::
  "'s prismaServer \<Rightarrow> cookieSessionStorage \<Rightarrow> request \<Rightarrow> 's world \<Rightarrow>
     user option \<times> sessionHandle \<times> 's world" where
  \<comment> \<open>the body of \<^verbatim>\<open>getUser\<close>; the handle it opened is returned next to the result, so
      that what the body did to its session can be stated\<close>
  "getUser_run env st req w =
     (let h = getSession st req
      in case session_get (session h) sessionIdKey of
           None \<Rightarrow> (None, h, w)
         | Some token \<Rightarrow>
             if token = [] then (None, h, w)
             else (case getUserFromSessionId env token (db w) of
                     (Inr u, d) \<Rightarrow>
                       (Some u, h, w\<lparr>db := d, calls := calls w @ [GetUserFromSessionId token]\<rparr>)
                   | (Inl e, d) \<Rightarrow>
                       (None, h,
                        w\<lparr>db := d, calls := calls w @ [GetUserFromSessionId token],
                          consoleErrors := consoleErrors w @
                            [(''Failure getting user from session ID:'', e)]\<rparr>)))"

definition getUser ::
  "'s prismaServer \<Rightarrow> cookieSessionStorage \<Rightarrow> request \<Rightarrow> 's world \<Rightarrow> user option \<times> 's world" where
  "getUser env st req w = (case getUser_run env st req w of (r, h, w') \<Rightarrow> (r, w'))"

definition getUserSessionFromMagicLink ::
  "'s prismaServer \<Rightarrow> cookieSessionStorage \<Rightarrow> request \<Rightarrow> 's world \<Rightarrow>
     (error + sessionHandle option) \<times> 's world" where
  "getUserSessionFromMagicLink env st req w =
     (case validateMagicLink env (url req) (db w) of
        (Inl e, d1) \<Rightarrow> (Inl e, w\<lparr>db := d1, calls := calls w @ [ValidateMagicLink (url req)]\<rparr>)
      | (Inr em, d1) \<Rightarrow>
          (let w1 = w\<lparr>db := d1, calls := calls w @ [ValidateMagicLink (url req)]\<rparr>
           in case getUserByEmail env em (db w1) of
                (Inl e, d2) \<Rightarrow> (Inl e, w1\<lparr>db := d2, calls := calls w1 @ [GetUserByEmail em]\<rparr>)
              | (Inr None, d2) \<Rightarrow>
                  (Inr None, w1\<lparr>db := d2, calls := calls w1 @ [GetUserByEmail em]\<rparr>)
              | (Inr (Some u), d2) \<Rightarrow>
                  (let w2 = w1\<lparr>db := d2, calls := calls w1 @ [GetUserByEmail em]\<rparr>
                   in case singIn env (userId u) (getSession st req) w2 of
                        (Inl e, h, w3) \<Rightarrow> (Inl e, w3)
                      | (Inr _, h, w3) \<Rightarrow> (Inr (Some h), w3))))"

type_synonym 's callback = "user \<Rightarrow> 's world \<Rightarrow> (error + response) \<times> 's world"

definition requireAdminUser ::
  "'s prismaServer \<Rightarrow> cookieSessionStorage \<Rightarrow> request \<Rightarrow> 's callback \<Rightarrow> 's world \<Rightarrow>
     (error + response) \<times> 's world" where
  "requireAdminUser env st req callback w =
     (case getUser env st req w of
        (None, w1) \<Rightarrow>
          (case signOut (getSession st req) w1 of
             (h, w2) \<Rightarrow> (Inr (redirect ''/login'' (Some (getHeaders st h None))), w2))
      | (Some u, w1) \<Rightarrow>
          if role u \<noteq> ''ADMIN'' then (Inr (redirect ''/'' None), w1)
          else callback u w1)"

definition requireUser ::
  "'s prismaServer \<Rightarrow> cookieSessionStorage \<Rightarrow> request \<Rightarrow> 's callback \<Rightarrow> 's world \<Rightarrow>
     (error + response) \<times> 's world" where
  "requireUser env st req callback w =
     (case getUser env st req w of
        (None, w1) \<Rightarrow>
          (case signOut (getSession st req) w1 of
             (h, w2) \<Rightarrow> (Inr (redirect ''/login'' (Some (getHeaders st h None))), w2))
      | (Some u, w1) \<Rightarrow> callback u w1)"

subsection \<open>\<^verbatim>\<open>getClientSession\<close>\<close>

text \<open>
  The client handle has the same two variables as the session handle. \<open>fresh\<close> stands
  for what \<^verbatim>\<open>uuid.v4()\<close> returns if it is called.
\<close>

definition getClientId :: "string \<Rightarrow> sessionHandle \<Rightarrow> string \<times> sessionHandle" where
  "getClientId fresh h =
     (case session_get (session h) ''clientId'' of
        Some clientId \<Rightarrow> (clientId, h)
      | None \<Rightarrow> (fresh, h\<lparr>session := session_set (session h) ''clientId'' fresh\<rparr>))"

definition getClientSession :: "cookieSessionStorage \<Rightarrow> request \<Rightarrow> string \<Rightarrow> sessionHandle" where
  "getClientSession st req fresh =
     (let s = storage_getSession st (cookieHeader req);
          h = \<lparr>session = s, initialValue = storage_commitSession st s\<rparr>
      in snd (getClientId fresh h))"

definition clientCommit :: "cookieSessionStorage \<Rightarrow> sessionHandle \<Rightarrow> string option" where
  "clientCommit st h =
     (let currentValue = storage_commitSession st (session h)
      in if currentValue = initialValue h then None else Some currentValue)"

definition clientGetHeaders ::
  "cookieSessionStorage \<Rightarrow> sessionHandle \<Rightarrow> headersInit option \<Rightarrow> headersInit" where
  "clientGetHeaders st h arg =
     (let hdrs = (case arg of None \<Rightarrow> HeadersObject [] | Some x \<Rightarrow> x)
      in case clientCommit st h of
           None \<Rightarrow> hdrs
         | Some v \<Rightarrow>
             if v = [] then hdrs
             else (case hdrs of
                     HeadersObject hs \<Rightarrow> HeadersObject (hs @ [(''Set-Cookie'', v)])
                   | HeadersArray hs \<Rightarrow> HeadersArray (hs @ [(''Set-Cookie'', v)])
                   | HeadersRecord hs \<Rightarrow> HeadersRecord (AList.update ''Set-Cookie'' v hs)))"

subsection \<open>Contracts of the cookie codec\<close>

text \<open>
  \<open>roundTrips st sends\<close>: the browser, having stored the \<^verbatim>\<open>Set-Cookie\<close> value \<open>v\<close>,
  sends the \<^verbatim>\<open>Cookie\<close> header \<open>sends v\<close>, and the storage reads back from it the data
  that was serialized.
\<close>

definition roundTrips :: "cookieSessionStorage \<Rightarrow> (string \<Rightarrow> string) \<Rightarrow> bool" where
  "roundTrips st sends = (\<forall>d. parseCookie st (sends (serializeCookie st d)) = Some d)"

definition faithful :: "cookieSessionStorage \<Rightarrow> bool" where
  \<comment> \<open>different session data serialize differently, and never to the empty string\<close>
  "faithful st = (inj (serializeCookie st) \<and> (\<forall>d. serializeCookie st d \<noteq> []))"

subsection \<open>A storage and a database to run the functions on\<close>

text \<open>
  An unsigned codec: every character of a key is written after \<open>k\<close>, every character of
  a value after \<open>v\<close>, and \<open>;_\<close> closes a pair; the cookie is named \<open>S\<close>.
\<close>

fun encChars :: "char \<Rightarrow> string \<Rightarrow> string" where
  "encChars t [] = []"
| "encChars t (c # cs) = t # c # encChars t cs"

fun encSession :: "sessionData \<Rightarrow> string" where
  "encSession [] = []"
| "encSession ((k, v) # ps) =
     encChars CHR ''k'' k @ encChars CHR ''v'' v @ CHR '';'' # CHR ''_'' # encSession ps"

fun decSession :: "string \<Rightarrow> sessionData option" where
  "decSession [] = Some []"
| "decSession [t] = None"
| "decSession (t # c # rest) =
     (case decSession rest of
        None \<Rightarrow> None
      | Some ps \<Rightarrow>
          if t = CHR '';'' then Some (([], []) # ps)
          else (case ps of
                  [] \<Rightarrow> None
                | (k, v) # qs \<Rightarrow>
                    if t = CHR ''k'' then Some ((c # k, v) # qs)
                    else if t = CHR ''v'' then Some ((k, c # v) # qs)
                    else None))"

definition plainStorage :: cookieSessionStorage where
  "plainStorage =
     \<lparr>parseCookie = (\<lambda>s. case s of
                            a # b # rest \<Rightarrow>
                              if a = CHR ''S'' \<and> b = CHR ''='' then decSession rest else None
                          | _ \<Rightarrow> None),
      serializeCookie = (\<lambda>d. CHR ''S'' # CHR ''='' # encSession d)\<rparr>"

text \<open>
  An in-memory database: users, and session records from session id to user id. Magic
  links are the URLs \<open>/magic/<email>\<close>; a new session record is named by the number of
  records before it.
\<close>

record memDb =
  users :: "user list"
  sessions :: "(string \<times> string) list"

definition memPrisma :: "memDb prismaServer" where
  "memPrisma =
     \<lparr>getUserByEmail = (\<lambda>em d. (Inr (find (\<lambda>u. email u = em) (users d)), d)),
      getUserFromSessionId = (\<lambda>sid d.
         (case map_of (sessions d) sid of
            None \<Rightarrow> Inl ''No user found''
          | Some uid \<Rightarrow>
              (case find (\<lambda>u. userId u = uid) (users d) of
                 None \<Rightarrow> Inl ''No user found''
               | Some u \<Rightarrow> Inr u), d)),
      validateMagicLink = (\<lambda>link d.
         (if take 7 link = ''/magic/'' then Inr (drop 7 link) else Inl ''Invalid magic link'', d)),
      createSession = (\<lambda>uid d.
         (let sid = CHR ''s'' # replicate (length (sessions d)) CHR ''1''
          in (Inr sid, d\<lparr>sessions := (sid, uid) # sessions d\<rparr>)))\<rparr>"

definition kody :: user where
  "kody = \<lparr>userId = ''u1'', email = ''kody@example.com'', role = ''MEMBER''\<rparr>"

definition memWorld :: "memDb world" where
  "memWorld = \<lparr>db = \<lparr>users = [kody], sessions = [(''s'', ''u1'')]\<rparr>, calls = [], consoleErrors = []\<rparr>"

definition okCallback :: "memDb callback" where
  "okCallback u w = (Inr \<lparr>status = 200, headers = []\<rparr>, w)"

text \<open>
  Three requests: one without cookies, one whose session cookie names a session record
  the database does not have, one whose session cookie names the record of \<open>kody\<close>.
\<close>

definition anonRequest :: request where
  "anonRequest = \<lparr>cookieHeader = None, url = ''/me''\<rparr>"

definition staleRequest :: request where
  "staleRequest =
     \<lparr>cookieHeader = Some (serializeCookie plainStorage [(sessionIdKey, ''gone'')]), url = ''/me''\<rparr>"

definition kodyRequest :: request where
  "kodyRequest =
     \<lparr>cookieHeader = Some (serializeCookie plainStorage [(sessionIdKey, ''s'')]), url = ''/admin''\<rparr>"

text \<open>
  A database module whose lookup by session id is rejected, and the handle and world
  after \<open>kody\<close> signs in on the session of the request without cookies.
\<close>

definition flakyPrisma :: "memDb prismaServer" where
  "flakyPrisma =
     memPrisma\<lparr>getUserFromSessionId := (\<lambda>sid d. (Inl ''Database unreachable'', d))\<rparr>"

definition magicRequest :: request where
  "magicRequest = \<lparr>cookieHeader = None, url = ''/magic/kody@example.com''\<rparr>"

definition signedInHandle :: sessionHandle where
  "signedInHandle = fst (snd (singIn flakyPrisma ''u1'' (getSession plainStorage magicRequest) memWorld))"

definition signedInWorld :: "memDb world" where
  "signedInWorld = snd (snd (singIn flakyPrisma ''u1'' (getSession plainStorage magicRequest) memWorld))"

subsection \<open>Reading a response\<close>

definition holdsSessionId :: "cookieSessionStorage \<Rightarrow> request \<Rightarrow> bool" where
  \<comment> \<open>the session cookie of the request holds a session id that is not the empty string\<close>
  "holdsSessionId st req =
     (case getSessionId (getSession st req) of None \<Rightarrow> False | Some sid \<Rightarrow> sid \<noteq> [])"

definition redirectsTo :: "error + response \<Rightarrow> string \<Rightarrow> bool" where
  "redirectsTo r target =
     (case r of
        Inl e \<Rightarrow> False
      | Inr resp \<Rightarrow> status resp = 302 \<and> headersGet (headers resp) ''Location'' = Some target)"

definition carriesSetCookie :: "error + response \<Rightarrow> bool" where
  "carriesSetCookie r =
     (case r of Inl e \<Rightarrow> False | Inr resp \<Rightarrow> headersGet (headers resp) ''Set-Cookie'' \<noteq> None)"

section \<open>Properties\<close>

subsection \<open>The codec used in the examples keeps its contracts\<close>

lemma decSession_encChars_k:
  "decSession r = Some ((k0, v0) # ps) \<Longrightarrow>
   decSession (encChars CHR ''k'' k @ r) = Some ((k @ k0, v0) # ps)"
  by (induction k) simp_all

lemma decSession_encChars_v:
  "decSession r = Some ((k0, v0) # ps) \<Longrightarrow>
   decSession (encChars CHR ''v'' v @ r) = Some ((k0, v @ v0) # ps)"
  by (induction v) simp_all

lemma decSession_encSession: "decSession (encSession d) = Some d"
proof (induction d)
  case Nil
  show ?case by simp
next
  case (Cons p ps)
  obtain k v where p: "p = (k, v)" by (cases p)
  have "decSession (CHR '';'' # CHR ''_'' # encSession ps) = Some (([], []) # ps)"
    using Cons.IH by simp
  then have "decSession (encChars CHR ''v'' v @ CHR '';'' # CHR ''_'' # encSession ps)
      = Some (([], v) # ps)"
    using decSession_encChars_v [of "CHR '';'' # CHR ''_'' # encSession ps" "[]" "[]" ps v]
    by simp
  then have "decSession (encChars CHR ''k'' k @ encChars CHR ''v'' v @
      CHR '';'' # CHR ''_'' # encSession ps) = Some ((k, v) # ps)"
    using decSession_encChars_k
      [of "encChars CHR ''v'' v @ CHR '';'' # CHR ''_'' # encSession ps" "[]" v ps k]
    by simp
  then show ?case by (simp add: p)
qed

lemma plainStorage_roundTrips: "roundTrips plainStorage (\<lambda>v. v)"
  by (simp add: roundTrips_def plainStorage_def decSession_encSession)

lemma encSession_inj: "encSession d = encSession d' \<Longrightarrow> d = d'"
  by (metis decSession_encSession option.inject)

lemma plainStorage_faithful: "faithful plainStorage"
  by (auto simp: faithful_def plainStorage_def inj_def dest: encSession_inj)

lemma roundTrips_inj: "roundTrips st sends \<Longrightarrow> inj (serializeCookie st)"
  unfolding roundTrips_def inj_def by (metis option.inject)

subsection \<open>Sessions and handles\<close>

lemma session_set_changes:
  "session_get d k = None \<Longrightarrow> session_set d k v \<noteq> d"
  by (metis session_get_def session_set_def update_conv' fun_upd_same option.distinct(1))

lemma session_unset_changes:
  "session_get d k = Some v \<Longrightarrow> session_unset d k \<noteq> d"
  by (metis session_get_def session_unset_def delete_conv' fun_upd_same option.distinct(1))

lemma session_get_unset: "session_get (session_unset d k) k = None"
  by (simp add: session_get_def session_unset_def delete_conv')

lemma session_get_set: "session_get (session_set d k v) k = Some v"
  by (simp add: session_get_def session_set_def update_conv')

lemma plainStorage_parse_serialize:
  "parseCookie plainStorage (serializeCookie plainStorage d) = Some d"
  using plainStorage_roundTrips by (simp add: roundTrips_def)

lemma getSession_plain:
  "getSession plainStorage \<lparr>cookieHeader = Some (serializeCookie plainStorage d), url = u\<rparr>
     = \<lparr>session = d, initialValue = serializeCookie plainStorage d\<rparr>"
  by (simp add: getSession_def storage_getSession_def storage_commitSession_def
      plainStorage_parse_serialize)

lemma getClientSession_known:
  "session_get (storage_getSession st (cookieHeader req)) ''clientId'' = Some c \<Longrightarrow>
   getClientSession st req fresh =
     \<lparr>session = storage_getSession st (cookieHeader req),
      initialValue = serializeCookie st (storage_getSession st (cookieHeader req))\<rparr>"
  by (simp add: getClientSession_def getClientId_def storage_commitSession_def Let_def)

lemma getClientSession_new:
  "session_get (storage_getSession st (cookieHeader req)) ''clientId'' = None \<Longrightarrow>
   getClientSession st req fresh =
     \<lparr>session = session_set (storage_getSession st (cookieHeader req)) ''clientId'' fresh,
      initialValue = serializeCookie st (storage_getSession st (cookieHeader req))\<rparr>"
  by (simp add: getClientSession_def getClientId_def storage_commitSession_def Let_def)

lemma getUser_run_handle: "fst (snd (getUser_run env st req w)) = getSession st req"
  by (simp add: getUser_run_def Let_def split: option.splits prod.splits sum.splits)

subsection \<open>Claims\<close>

text \<open>
  Claim C1, as the code has it. When \<^verbatim>\<open>getUser\<close> resolves no user, \<^verbatim>\<open>requireUser\<close>
  answers with a 302 redirect to \<open>/login\<close>. Over a storage that serializes different
  session data differently and never to the empty string, the redirect carries a
  \<^verbatim>\<open>Set-Cookie\<close> header exactly when the session cookie of the request held a non-empty
  session id, and its value is then the session serialized without the session-id key;
  when the request held no session id, \<^verbatim>\<open>commit()\<close> is null and the redirect carries
  the \<^verbatim>\<open>Location\<close> header only.
\<close>

theorem requireUser_absent_user:
  assumes "fst (getUser env st req w) = None" and "faithful st"
  shows "fst (requireUser env st req callback w) =
     Inr \<lparr>status = 302,
          headers =
            (if holdsSessionId st req
             then [(''Set-Cookie'',
                    serializeCookie st (session_unset (session (getSession st req)) sessionIdKey))]
             else []) @ [(''Location'', ''/login'')]\<rparr>"
proof -
  let ?h = "getSession st req"
  obtain w1 where g: "getUser env st req w = (None, w1)"
    using assms(1) by (cases "getUser env st req w") simp
  have iv: "initialValue ?h = serializeCookie st (session ?h)"
    by (simp add: getSession_def storage_commitSession_def Let_def)
  show ?thesis
  proof (cases "holdsSessionId st req")
    case False
    then have "signOut ?h w1 = (?h, w1)"
      by (simp add: holdsSessionId_def signOut_def split: option.splits)
    moreover have "commit st ?h = None"
      by (simp add: commit_def iv storage_commitSession_def)
    ultimately show ?thesis
      using g False
      by (simp add: requireUser_def getHeaders_def redirect_def headersSet_def)
  next
    case True
    then obtain sid where sid: "getSessionId ?h = Some sid" "sid \<noteq> []"
      by (auto simp: holdsSessionId_def split: option.splits)
    have so: "signOut ?h w1 = (unsetSessionId ?h, w1\<lparr>calls := calls w1 @ [SessionDelete sid]\<rparr>)"
      using sid by (simp add: signOut_def)
    have ne: "session_unset (session ?h) sessionIdKey \<noteq> session ?h"
      using sid(1) by (simp add: getSessionId_def session_unset_changes)
    have "serializeCookie st (session_unset (session ?h) sessionIdKey) \<noteq> initialValue ?h"
      using ne assms(2) iv by (auto simp: faithful_def dest: injD)
    then have c: "commit st (unsetSessionId ?h) =
             Some (serializeCookie st (session_unset (session ?h) sessionIdKey))"
      by (simp add: commit_def unsetSessionId_def storage_commitSession_def)
    have nz: "serializeCookie st (session_unset (session ?h) sessionIdKey) \<noteq> []"
      using assms(2) by (simp add: faithful_def)
    show ?thesis
      using g True so c nz
      by (simp add: requireUser_def getHeaders_def redirect_def headersSet_def)
  qed
qed

theorem requireUser_absent_user_witness:
  "fst (getUser memPrisma plainStorage staleRequest memWorld) = None \<and> faithful plainStorage \<and>
   holdsSessionId plainStorage staleRequest \<and>
   fst (requireUser memPrisma plainStorage staleRequest okCallback memWorld) =
     Inr \<lparr>status = 302, headers = [(''Set-Cookie'', ''S=''), (''Location'', ''/login'')]\<rparr>"
proof -
  have g: "fst (getUser memPrisma plainStorage staleRequest memWorld) = None"
    by (simp add: getUser_def getUser_run_def staleRequest_def getSession_plain session_get_def
        sessionIdKey_def memPrisma_def memWorld_def)
  have h: "holdsSessionId plainStorage staleRequest"
    by (simp add: holdsSessionId_def staleRequest_def getSession_plain getSessionId_def
        session_get_def)
  have u: "session_unset (session (getSession plainStorage staleRequest)) sessionIdKey = []"
    by (simp add: staleRequest_def getSession_plain session_unset_def)
  have e: "serializeCookie plainStorage [] = ''S=''"
    by (simp add: plainStorage_def)
  show ?thesis
    using g h plainStorage_faithful
      requireUser_absent_user [OF g plainStorage_faithful, of okCallback]
    by (simp add: u e)
qed

text \<open>
  Claim C1, as it is written, asks for a \<^verbatim>\<open>Set-Cookie\<close> header on every such
  redirect. For the request without cookies no user is resolved and the redirect goes to
  \<open>/login\<close>, but no \<^verbatim>\<open>Set-Cookie\<close> header is attached.
\<close>

theorem requireUser_no_cookie_counterexample:
  "fst (getUser memPrisma plainStorage anonRequest memWorld) = None \<and>
   redirectsTo (fst (requireUser memPrisma plainStorage anonRequest okCallback memWorld)) ''/login'' \<and>
   \<not> carriesSetCookie (fst (requireUser memPrisma plainStorage anonRequest okCallback memWorld))"
  by (simp add: requireUser_def getUser_def getUser_run_def anonRequest_def getSession_def
      storage_getSession_def storage_commitSession_def session_get_def signOut_def getSessionId_def
      getHeaders_def commit_def redirect_def headersSet_def carriesSetCookie_def redirectsTo_def
      headersGet_def)

text \<open>
  Claim C2. On a handle that \<^verbatim>\<open>getSession\<close> has just returned, with no \<^verbatim>\<open>set\<close> or
  \<^verbatim>\<open>unset\<close> of the session in between, \<^verbatim>\<open>commit()\<close> returns null: the value serialized
  now is the value captured when the session was opened.
\<close>

theorem commit_without_mutation: "commit st (getSession st req) = None"
  by (simp add: commit_def getSession_def Let_def)

text \<open>
  Claim C3. For a request without a \<^verbatim>\<open>Cookie\<close> header, \<^verbatim>\<open>getUser\<close> returns null and
  leaves the world as it found it: the database is not called (the call trace and the
  database state are unchanged) and nothing is logged.
\<close>

theorem getUser_no_cookie:
  "cookieHeader req = None \<Longrightarrow> getUser env st req w = (None, w)"
  by (simp add: getUser_def getUser_run_def getSession_def storage_getSession_def
      session_get_def Let_def)

theorem getUser_no_cookie_witness:
  "cookieHeader \<lparr>cookieHeader = None, url = ''/''\<rparr> = None \<and>
   getUser memPrisma plainStorage \<lparr>cookieHeader = None, url = ''/''\<rparr> memWorld = (None, memWorld)"
  using getUser_no_cookie [of "\<lparr>cookieHeader = None, url = ''/''\<rparr>" memPrisma plainStorage memWorld]
  by simp

text \<open>
  Claim C4. When the magic link of the request validates to an email address for which
  \<^verbatim>\<open>getUserByEmail\<close> finds no user, \<^verbatim>\<open>getUserSessionFromMagicLink\<close> returns null (not an
  error); the only calls made are the validation and the lookup by email, so no session
  record is created and no sign-in takes place, and the database is in the state the
  lookup left.
\<close>

theorem magicLink_unknown_email:
  assumes "validateMagicLink env (url req) (db w) = (Inr em, d1)"
    and "getUserByEmail env em d1 = (Inr None, d2)"
  shows "getUserSessionFromMagicLink env st req w =
    (Inr None, w\<lparr>db := d2, calls := calls w @ [ValidateMagicLink (url req), GetUserByEmail em]\<rparr>)"
  using assms by (simp add: getUserSessionFromMagicLink_def Let_def)

theorem magicLink_unknown_email_witness:
  "validateMagicLink memPrisma (url \<lparr>cookieHeader = None, url = ''/magic/nobody@example.com''\<rparr>) (db memWorld)
     = (Inr ''nobody@example.com'', db memWorld) \<and>
   getUserByEmail memPrisma ''nobody@example.com'' (db memWorld) = (Inr None, db memWorld) \<and>
   getUserSessionFromMagicLink memPrisma plainStorage
     \<lparr>cookieHeader = None, url = ''/magic/nobody@example.com''\<rparr> memWorld =
    (Inr None, memWorld\<lparr>calls := [ValidateMagicLink ''/magic/nobody@example.com'',
       GetUserByEmail ''nobody@example.com'']\<rparr>)"
proof -
  have v: "validateMagicLink memPrisma (url \<lparr>cookieHeader = None, url = ''/magic/nobody@example.com''\<rparr>) (db memWorld)
     = (Inr ''nobody@example.com'', db memWorld)"
    by (simp add: memPrisma_def)
  have g: "getUserByEmail memPrisma ''nobody@example.com'' (db memWorld) = (Inr None, db memWorld)"
    by (simp add: memPrisma_def memWorld_def kody_def)
  show ?thesis
    using v g magicLink_unknown_email [OF v g, of plainStorage]
    by (simp add: memWorld_def)
qed

text \<open>
  Claim C5. When \<^verbatim>\<open>validateMagicLink\<close> rejects the link of the request,
  \<^verbatim>\<open>getUserSessionFromMagicLink\<close> rejects with that same error: it is neither caught nor
  turned into null, and no further call is made.
\<close>

theorem magicLink_invalid_token:
  assumes "validateMagicLink env (url req) (db w) = (Inl e, d1)"
  shows "getUserSessionFromMagicLink env st req w =
    (Inl e, w\<lparr>db := d1, calls := calls w @ [ValidateMagicLink (url req)]\<rparr>)"
  using assms by (simp add: getUserSessionFromMagicLink_def)

theorem magicLink_invalid_token_witness:
  "validateMagicLink memPrisma (url \<lparr>cookieHeader = None, url = ''/bogus''\<rparr>) (db memWorld)
     = (Inl ''Invalid magic link'', db memWorld) \<and>
   getUserSessionFromMagicLink memPrisma plainStorage \<lparr>cookieHeader = None, url = ''/bogus''\<rparr> memWorld =
    (Inl ''Invalid magic link'', memWorld\<lparr>calls := [ValidateMagicLink ''/bogus'']\<rparr>)"
proof -
  have v: "validateMagicLink memPrisma (url \<lparr>cookieHeader = None, url = ''/bogus''\<rparr>) (db memWorld)
     = (Inl ''Invalid magic link'', db memWorld)"
    by (simp add: memPrisma_def)
  show ?thesis
    using v magicLink_invalid_token [OF v, of plainStorage]
    by (simp add: memWorld_def)
qed

text \<open>
  Claim C6. Open the client session of a request, and let a second request carry the
  cookie the browser holds afterwards: the committed value if \<^verbatim>\<open>commit()\<close> gave one, the
  cookie of the first request if it gave null. Over a storage that reads back what it
  serialized, the client session of the second request has the client id of the first,
  whatever \<^verbatim>\<open>uuid.v4()\<close> would return on either request. Nothing of the login state
  enters \<^verbatim>\<open>getClientSession\<close>.
\<close>

theorem clientId_round_trip:
  assumes "roundTrips st sends"
    and "cookieHeader req2 =
           (case clientCommit st (getClientSession st req fresh1) of
              None \<Rightarrow> cookieHeader req
            | Some v \<Rightarrow> Some (sends v))"
  shows "fst (getClientId x2 (getClientSession st req2 fresh2)) =
         fst (getClientId x1 (getClientSession st req fresh1))"
proof -
  let ?d = "storage_getSession st (cookieHeader req)"
  let ?h1 = "getClientSession st req fresh1"
  show ?thesis
  proof (cases "session_get ?d ''clientId''")
    case (Some c)
    have h1: "?h1 = \<lparr>session = ?d, initialValue = serializeCookie st ?d\<rparr>"
      using Some by (rule getClientSession_known)
    have "clientCommit st ?h1 = None"
      by (simp add: h1 clientCommit_def storage_commitSession_def)
    then have "cookieHeader req2 = cookieHeader req"
      using assms(2) by simp
    then have "session_get (storage_getSession st (cookieHeader req2)) ''clientId'' = Some c"
      using Some by simp
    then have "fst (getClientId x2 (getClientSession st req2 fresh2)) = c"
      by (simp add: getClientSession_known getClientId_def)
    moreover have "fst (getClientId x1 ?h1) = c"
      using Some by (simp add: h1 getClientId_def)
    ultimately show ?thesis by simp
  next
    case None
    let ?d1 = "session_set ?d ''clientId'' fresh1"
    have h1: "?h1 = \<lparr>session = ?d1, initialValue = serializeCookie st ?d\<rparr>"
      using None by (rule getClientSession_new)
    have "?d1 \<noteq> ?d"
      using None by (rule session_set_changes)
    then have "serializeCookie st ?d1 \<noteq> serializeCookie st ?d"
      using roundTrips_inj [OF assms(1)] by (auto dest: injD)
    then have "clientCommit st ?h1 = Some (serializeCookie st ?d1)"
      by (simp add: h1 clientCommit_def storage_commitSession_def)
    then have "cookieHeader req2 = Some (sends (serializeCookie st ?d1))"
      using assms(2) by simp
    then have "storage_getSession st (cookieHeader req2) = ?d1"
      using assms(1) by (simp add: storage_getSession_def roundTrips_def)
    then have "session_get (storage_getSession st (cookieHeader req2)) ''clientId'' = Some fresh1"
      by (simp add: session_get_set)
    then have "fst (getClientId x2 (getClientSession st req2 fresh2)) = fresh1"
      by (simp add: getClientSession_known getClientId_def)
    moreover have "fst (getClientId x1 ?h1) = fresh1"
      by (simp add: h1 getClientId_def session_get_set)
    ultimately show ?thesis by simp
  qed
qed

theorem clientId_round_trip_witness:
  "roundTrips plainStorage (\<lambda>v. v) \<and>
   clientCommit plainStorage (getClientSession plainStorage anonRequest ''c-1'') =
     Some (serializeCookie plainStorage [(''clientId'', ''c-1'')]) \<and>
   fst (getClientId ''c-3''
     (getClientSession plainStorage
        \<lparr>cookieHeader = Some (serializeCookie plainStorage [(''clientId'', ''c-1'')]), url = ''/blog''\<rparr>
        ''c-2'')) = ''c-1'' \<and>
   fst (getClientId ''c-4'' (getClientSession plainStorage anonRequest ''c-1'')) = ''c-1''"
proof -
  let ?req2 = "\<lparr>cookieHeader = Some (serializeCookie plainStorage [(''clientId'', ''c-1'')]), url = ''/blog''\<rparr>"
  have h1: "getClientSession plainStorage anonRequest ''c-1'' =
      \<lparr>session = [(''clientId'', ''c-1'')], initialValue = serializeCookie plainStorage []\<rparr>"
    by (simp add: getClientSession_def getClientId_def anonRequest_def storage_getSession_def
        storage_commitSession_def session_get_def session_set_def)
  have c: "clientCommit plainStorage (getClientSession plainStorage anonRequest ''c-1'') =
     Some (serializeCookie plainStorage [(''clientId'', ''c-1'')])"
    by (simp add: h1 clientCommit_def storage_commitSession_def) (simp add: plainStorage_def)
  have k: "cookieHeader ?req2 =
           (case clientCommit plainStorage (getClientSession plainStorage anonRequest ''c-1'') of
              None \<Rightarrow> cookieHeader anonRequest
            | Some v \<Rightarrow> Some ((\<lambda>v. v) v))"
    by (simp add: c)
  have o: "fst (getClientId ''c-4'' (getClientSession plainStorage anonRequest ''c-1'')) = ''c-1''"
    by (simp add: h1 getClientId_def session_get_def)
  show ?thesis
    using plainStorage_roundTrips c o
      clientId_round_trip [OF plainStorage_roundTrips k, where ?x2.0 = "''c-3''" and ?fresh2.0 = "''c-2''"
        and ?x1.0 = "''c-4''"]
    by simp
qed



text \<open>
  Claim C8. When \<^verbatim>\<open>getUser\<close> resolves a user whose role is not \<open>ADMIN\<close>,
  \<^verbatim>\<open>requireAdminUser\<close> answers with a 302 redirect whose only header is
  \<^verbatim>\<open>Location: /\<close> (no \<^verbatim>\<open>Set-Cookie\<close>), whatever the callback is; the world is the one
  \<^verbatim>\<open>getUser\<close> left, in which the only call is the lookup of the session id: no sign-out,
  no deletion, and the session opened for the lookup still holds its session id.
\<close>

theorem requireAdminUser_non_admin:
  assumes "getUser env st req w = (Some u, w1)" and "role u \<noteq> ''ADMIN''"
  shows "requireAdminUser env st req callback w =
           (Inr \<lparr>status = 302, headers = [(''Location'', ''/'')]\<rparr>, w1) \<and>
         fst (snd (getUser_run env st req w)) = getSession st req \<and>
         (\<exists>token. getSessionId (getSession st req) = Some token \<and>
            calls w1 = calls w @ [GetUserFromSessionId token] \<and>
            consoleErrors w1 = consoleErrors w)"
proof (intro conjI)
  show "requireAdminUser env st req callback w =
           (Inr \<lparr>status = 302, headers = [(''Location'', ''/'')]\<rparr>, w1)"
    using assms by (simp add: requireAdminUser_def redirect_def headersSet_def)
  show "fst (snd (getUser_run env st req w)) = getSession st req"
    by (rule getUser_run_handle)
  show "\<exists>token. getSessionId (getSession st req) = Some token \<and>
            calls w1 = calls w @ [GetUserFromSessionId token] \<and>
            consoleErrors w1 = consoleErrors w"
    using assms(1)
    by (auto simp: getUser_def getUser_run_def getSessionId_def Let_def
        split: option.splits if_splits prod.splits sum.splits)
qed

theorem requireAdminUser_non_admin_witness:
  "getUser memPrisma plainStorage kodyRequest memWorld =
     (Some kody, memWorld\<lparr>calls := [GetUserFromSessionId ''s'']\<rparr>) \<and>
   role kody \<noteq> ''ADMIN'' \<and>
   requireAdminUser memPrisma plainStorage kodyRequest okCallback memWorld =
     (Inr \<lparr>status = 302, headers = [(''Location'', ''/'')]\<rparr>,
      memWorld\<lparr>calls := [GetUserFromSessionId ''s'']\<rparr>)"
proof -
  have g: "getUser memPrisma plainStorage kodyRequest memWorld =
     (Some kody, memWorld\<lparr>calls := [GetUserFromSessionId ''s'']\<rparr>)"
    by (simp add: getUser_def getUser_run_def kodyRequest_def getSession_plain session_get_def
        sessionIdKey_def memPrisma_def memWorld_def kody_def)
  have r: "role kody \<noteq> ''ADMIN''" by (simp add: kody_def)
  show ?thesis
    using g r requireAdminUser_non_admin [OF g r, of okCallback] by simp
qed

text \<open>
  Claim C9, as the code has it. Let a handle, in whatever state, hold a non-empty session
  id whose lookup the database rejects. The handle's \<^verbatim>\<open>getUser\<close> returns null, logs
  the error and removes the session-id key. If the session held a session-id key when it
  was opened, then over a storage that serializes different data differently \<^verbatim>\<open>commit()\<close>
  returns the serialization of the session without the key. For a request whose session
  holds that id, the module-level \<^verbatim>\<open>getUser\<close> returns null in the same world, and the
  session it opened is untouched.
\<close>

theorem getUser_lookup_failure:
  assumes "getSessionId h = Some token" and "token \<noteq> []"
    and "getUserFromSessionId env token (db w) = (Inl e, d)"
  shows "\<exists>w'. handle_getUser env h w = (None, unsetSessionId h, w') \<and>
           getSessionId (unsetSessionId h) = None \<and>
           (inj (serializeCookie st) \<and> initialValue h = serializeCookie st d0 \<and>
              session_get d0 sessionIdKey \<noteq> None \<longrightarrow>
            commit st (unsetSessionId h) =
              Some (serializeCookie st (session_unset (session h) sessionIdKey))) \<and>
           (getSessionId (getSession st req) = Some token \<longrightarrow>
            getUser_run env st req w = (None, getSession st req, w') \<and>
            getUser env st req w = (None, w'))"
proof -
  let ?w = "w\<lparr>db := d, calls := calls w @ [GetUserFromSessionId token],
    consoleErrors := consoleErrors w @ [(''Failure getting user from session ID:'', e)]\<rparr>"
  have r: "handle_getUser env h w = (None, unsetSessionId h, ?w)"
    using assms by (simp add: handle_getUser_def)
  have g: "getSessionId (unsetSessionId h) = None"
    by (simp add: getSessionId_def unsetSessionId_def session_get_unset)
  have c: "commit st (unsetSessionId h) =
      Some (serializeCookie st (session_unset (session h) sessionIdKey))"
    if i: "inj (serializeCookie st)" and iv: "initialValue h = serializeCookie st d0"
      and k: "session_get d0 sessionIdKey \<noteq> None"
  proof -
    have "session_unset (session h) sessionIdKey \<noteq> d0"
      using k session_get_unset [of "session h" sessionIdKey] by auto
    then have "serializeCookie st (session_unset (session h) sessionIdKey) \<noteq> initialValue h"
      using i iv by (auto dest: injD)
    then show ?thesis
      by (simp add: commit_def unsetSessionId_def storage_commitSession_def)
  qed
  have m: "getUser_run env st req w = (None, getSession st req, ?w) \<and>
      getUser env st req w = (None, ?w)"
    if "getSessionId (getSession st req) = Some token"
    using that assms(2,3)
    by (simp add: getUser_def getUser_run_def getSessionId_def Let_def)
  show ?thesis
    using r g c m by blast
qed

theorem getUser_lookup_failure_witness:
  "getSessionId (getSession plainStorage staleRequest) = Some ''gone'' \<and> ''gone'' \<noteq> [] \<and>
   getUserFromSessionId memPrisma ''gone'' (db memWorld) = (Inl ''No user found'', db memWorld) \<and>
   inj (serializeCookie plainStorage) \<and>
   initialValue (getSession plainStorage staleRequest) =
     serializeCookie plainStorage [(sessionIdKey, ''gone'')] \<and>
   session_get [(sessionIdKey, ''gone'')] sessionIdKey \<noteq> None \<and>
   fst (handle_getUser memPrisma (getSession plainStorage staleRequest) memWorld) = None \<and>
   getSessionId (fst (snd (handle_getUser memPrisma (getSession plainStorage staleRequest) memWorld)))
     = None \<and>
   commit plainStorage (unsetSessionId (getSession plainStorage staleRequest)) = Some ''S='' \<and>
   fst (getUser_run memPrisma plainStorage staleRequest memWorld) = None \<and>
   fst (snd (getUser_run memPrisma plainStorage staleRequest memWorld)) =
     getSession plainStorage staleRequest \<and>
   fst (getUser memPrisma plainStorage staleRequest memWorld) = None"
proof -
  have s: "getSessionId (getSession plainStorage staleRequest) = Some ''gone''"
    by (simp add: staleRequest_def getSession_plain getSessionId_def session_get_def)
  have n: "''gone'' \<noteq> []" by simp
  have l: "getUserFromSessionId memPrisma ''gone'' (db memWorld) = (Inl ''No user found'', db memWorld)"
    by (simp add: memPrisma_def memWorld_def)
  have i: "inj (serializeCookie plainStorage)"
    using plainStorage_faithful by (simp add: faithful_def)
  have iv: "initialValue (getSession plainStorage staleRequest) =
      serializeCookie plainStorage [(sessionIdKey, ''gone'')]"
    by (simp add: staleRequest_def getSession_plain)
  have k: "session_get [(sessionIdKey, ''gone'')] sessionIdKey \<noteq> None"
    by (simp add: session_get_def)
  have u: "session_unset (session (getSession plainStorage staleRequest)) sessionIdKey = []"
    by (simp add: staleRequest_def getSession_plain session_unset_def)
  have e: "serializeCookie plainStorage [] = ''S=''"
    by (simp add: plainStorage_def)
  obtain w' where
    r: "handle_getUser memPrisma (getSession plainStorage staleRequest) memWorld =
          (None, unsetSessionId (getSession plainStorage staleRequest), w')"
    and g: "getSessionId (unsetSessionId (getSession plainStorage staleRequest)) = None"
    and c: "commit plainStorage (unsetSessionId (getSession plainStorage staleRequest)) =
          Some (serializeCookie plainStorage
            (session_unset (session (getSession plainStorage staleRequest)) sessionIdKey))"
    and m: "getUser_run memPrisma plainStorage staleRequest memWorld =
          (None, getSession plainStorage staleRequest, w')"
      "getUser memPrisma plainStorage staleRequest memWorld = (None, w')"
    using getUser_lookup_failure [OF s n l, where st = plainStorage
        and ?d0.0 = "[(sessionIdKey, ''gone'')]" and req = staleRequest] s i iv k
    by blast
  show ?thesis
    using s n l i iv k r g c m by (simp add: u e)
qed

text \<open>
  Claim C9, as it is written, asks for a non-null \<^verbatim>\<open>commit()\<close> on every handle that holds
  a session id. The handle that \<^verbatim>\<open>getUserSessionFromMagicLink\<close> returns for a request
  without cookies holds the id of the new session record; when its lookup is rejected, the
  handle's \<^verbatim>\<open>getUser\<close> returns null and removes the key, the session is again as it was
  opened, and \<^verbatim>\<open>commit()\<close> returns null.
\<close>

theorem getUser_lookup_failure_signed_in_counterexample:
  "fst (getUserSessionFromMagicLink flakyPrisma plainStorage magicRequest memWorld) =
     Inr (Some signedInHandle) \<and>
   getSessionId signedInHandle = Some ''s1'' \<and>
   fst (getUserFromSessionId flakyPrisma ''s1'' (db signedInWorld)) = Inl ''Database unreachable'' \<and>
   fst (handle_getUser flakyPrisma signedInHandle signedInWorld) = None \<and>
   getSessionId (fst (snd (handle_getUser flakyPrisma signedInHandle signedInWorld))) = None \<and>
   commit plainStorage (fst (snd (handle_getUser flakyPrisma signedInHandle signedInWorld))) = None"
proof -
  have h0: "getSession plainStorage magicRequest =
      \<lparr>session = [], initialValue = serializeCookie plainStorage []\<rparr>"
    by (simp add: getSession_def magicRequest_def storage_getSession_def storage_commitSession_def)
  have si: "singIn flakyPrisma ''u1'' (getSession plainStorage magicRequest) memWorld =
      (Inr (), \<lparr>session = [(sessionIdKey, ''s1'')], initialValue = serializeCookie plainStorage []\<rparr>,
       memWorld\<lparr>db := \<lparr>users = [kody], sessions = [(''s1'', ''u1''), (''s'', ''u1'')]\<rparr>,
         calls := [CreateSession ''u1'']\<rparr>)"
    by (simp add: h0 singIn_def flakyPrisma_def memPrisma_def memWorld_def session_set_def Let_def)
  have h: "signedInHandle =
      \<lparr>session = [(sessionIdKey, ''s1'')], initialValue = serializeCookie plainStorage []\<rparr>"
    by (simp add: signedInHandle_def si)
  have ml: "fst (getUserSessionFromMagicLink flakyPrisma plainStorage magicRequest memWorld) =
      Inr (Some signedInHandle)"
  proof -
    have v: "validateMagicLink flakyPrisma (url magicRequest) (db memWorld) =
        (Inr ''kody@example.com'', db memWorld)"
      by (simp add: flakyPrisma_def memPrisma_def magicRequest_def)
    have b: "getUserByEmail flakyPrisma ''kody@example.com'' (db memWorld) =
        (Inr (Some kody), db memWorld)"
      by (simp add: flakyPrisma_def memPrisma_def memWorld_def kody_def)
    have w0: "memWorld\<lparr>db := db memWorld, calls := calls memWorld @ cs\<rparr> = memWorld\<lparr>calls := cs\<rparr>" for cs
      by (simp add: memWorld_def)
    have si': "singIn flakyPrisma ''u1'' (getSession plainStorage magicRequest) (memWorld\<lparr>calls := cs\<rparr>) =
      (Inr (), signedInHandle,
       memWorld\<lparr>db := \<lparr>users = [kody], sessions = [(''s1'', ''u1''), (''s'', ''u1'')]\<rparr>,
         calls := cs @ [CreateSession ''u1'']\<rparr>)" for cs
      by (simp add: h h0 singIn_def flakyPrisma_def memPrisma_def memWorld_def session_set_def Let_def)
    have uk: "userId kody = ''u1''" by (simp add: kody_def)
    show ?thesis
      by (simp add: getUserSessionFromMagicLink_def v b Let_def w0 uk si')
  qed
  have l: "getUserFromSessionId flakyPrisma ''s1'' dd = (Inl ''Database unreachable'', dd)" for dd
    by (simp add: flakyPrisma_def)
  have r: "handle_getUser flakyPrisma signedInHandle signedInWorld =
      (None, \<lparr>session = [], initialValue = serializeCookie plainStorage []\<rparr>,
       signedInWorld\<lparr>db := db signedInWorld,
         calls := calls signedInWorld @ [GetUserFromSessionId ''s1''],
         consoleErrors := consoleErrors signedInWorld @
           [(''Failure getting user from session ID:'', ''Database unreachable'')]\<rparr>)"
    by (simp add: h handle_getUser_def getSessionId_def session_get_def l unsetSessionId_def
        session_unset_def)
  show ?thesis
    using ml
    by (simp add: r l) (simp add: h getSessionId_def session_get_def commit_def
        storage_commitSession_def)
qed

text \<open>
  Claim C10. When the cookie of the request yields no client id, \<^verbatim>\<open>getClientSession\<close>
  sets the fresh identifier before it returns, \<^verbatim>\<open>getClientId\<close> returns it from then on,
  and over a storage that serializes different data differently and never to the empty
  string \<^verbatim>\<open>commit()\<close> returns the serialization of the session with the identifier, which
  \<^verbatim>\<open>getHeaders\<close> attaches as a \<^verbatim>\<open>Set-Cookie\<close> header.
\<close>

theorem first_time_client_commits:
  assumes "session_get (storage_getSession st (cookieHeader req)) ''clientId'' = None"
    and "faithful st"
  shows "session (getClientSession st req fresh) =
           session_set (storage_getSession st (cookieHeader req)) ''clientId'' fresh \<and>
         getClientId other (getClientSession st req fresh) = (fresh, getClientSession st req fresh) \<and>
         clientCommit st (getClientSession st req fresh) =
           Some (serializeCookie st (session (getClientSession st req fresh))) \<and>
         clientGetHeaders st (getClientSession st req fresh) None =
           HeadersObject [(''Set-Cookie'', serializeCookie st (session (getClientSession st req fresh)))]"
proof -
  let ?d = "storage_getSession st (cookieHeader req)"
  let ?h = "getClientSession st req fresh"
  have h: "?h = \<lparr>session = session_set ?d ''clientId'' fresh, initialValue = serializeCookie st ?d\<rparr>"
    using assms(1) by (rule getClientSession_new)
  have "session_set ?d ''clientId'' fresh \<noteq> ?d"
    using assms(1) by (rule session_set_changes)
  then have ne: "serializeCookie st (session_set ?d ''clientId'' fresh) \<noteq> serializeCookie st ?d"
    using assms(2) by (auto simp: faithful_def dest: injD)
  have nz: "serializeCookie st (session_set ?d ''clientId'' fresh) \<noteq> []"
    using assms(2) by (simp add: faithful_def)
  have c: "clientCommit st ?h = Some (serializeCookie st (session ?h))"
    using ne by (simp add: h clientCommit_def storage_commitSession_def)
  have g: "getClientId other ?h = (fresh, ?h)"
    by (simp add: h getClientId_def session_get_set)
  have hd: "clientGetHeaders st ?h None = HeadersObject [(''Set-Cookie'', serializeCookie st (session ?h))]"
    using nz by (simp add: clientGetHeaders_def c) (simp add: h)
  show ?thesis using c g hd by (simp add: h)
qed

theorem first_time_client_commits_witness:
  "session_get (storage_getSession plainStorage (cookieHeader anonRequest)) ''clientId'' = None \<and>
   faithful plainStorage \<and>
   fst (getClientId ''c-2'' (getClientSession plainStorage anonRequest ''c-1'')) = ''c-1'' \<and>
   clientCommit plainStorage (getClientSession plainStorage anonRequest ''c-1'') =
     Some (serializeCookie plainStorage [(''clientId'', ''c-1'')])"
proof -
  have a: "session_get (storage_getSession plainStorage (cookieHeader anonRequest)) ''clientId'' = None"
    by (simp add: anonRequest_def storage_getSession_def session_get_def)
  have s: "session_set (storage_getSession plainStorage (cookieHeader anonRequest)) ''clientId'' ''c-1''
     = [(''clientId'', ''c-1'')]"
    by (simp add: anonRequest_def storage_getSession_def session_set_def)
  show ?thesis
    using a plainStorage_faithful
      first_time_client_commits [OF a plainStorage_faithful, where other = "''c-2''" and fresh = "''c-1''"]
    by (simp add: s)
qed

end
